theory Spec2Isabelle
  imports Main "HOL-Library.Sublist"
begin

section \<open>Python string operations used by the service\<close>

text \<open>
  Strings are lists of 8-bit characters. \<open>str.lower\<close> is modelled on the ASCII letters,
  which is all the role names and patterns of the service contain.
\<close>

definition lower_char :: "char \<Rightarrow> char" where
  "lower_char c =
     (let n = (of_char c :: nat) in if 65 \<le> n \<and> n \<le> 90 then char_of (n + 32) else c)"

definition lower :: "string \<Rightarrow> string" where
  "lower s = map lower_char s"

text \<open>\<open>s.replace(old, new)\<close>: every non-overlapping occurrence, from the left.\<close>

fun replace :: "string \<Rightarrow> string \<Rightarrow> string \<Rightarrow> string" where
  "replace [] new [] = new"
| "replace (x # xs) new [] = []"
| "replace [] new (c # cs) = new @ c # replace [] new cs"
| "replace (x # xs) new (c # cs) =
     (if prefix (x # xs) (c # cs) then new @ replace (x # xs) new (drop (length xs) cs)
      else c # replace (x # xs) new cs)"

text \<open>\<open>s.split(sep)\<close> for a one-character separator: at least one part, empty parts kept.\<close>

fun split :: "char \<Rightarrow> string \<Rightarrow> string list" where
  "split sep [] = [[]]"
| "split sep (c # cs) =
     (case split sep cs of
        [] \<Rightarrow> [[c]]
      | p # ps \<Rightarrow> if c = sep then [] # p # ps else (c # p) # ps)"

text \<open>\<open>sep.join(parts)\<close>.\<close>

fun join :: "string \<Rightarrow> string list \<Rightarrow> string" where
  "join sep [] = []"
| "join sep [p] = p"
| "join sep (p # q # ps) = p @ sep @ join sep (q # ps)"

text \<open>\<open>sub in s\<close>: \<open>sub\<close> occurs in \<open>s\<close> as a contiguous substring.\<close>

fun str_in :: "string \<Rightarrow> string \<Rightarrow> bool" where
  "str_in sub [] = (sub = [])"
| "str_in sub (c # cs) = (prefix sub (c # cs) \<or> str_in sub cs)"

definition endswith :: "string \<Rightarrow> string \<Rightarrow> bool" where
  "endswith s suf = suffix suf s"

section \<open>Transcripts\<close>

text \<open>
  A message of the chat history carries a role and a text. The role is the
  \<open>AuthorRole\<close> enumeration of the chat library, a string-valued enumeration:
  \<open>role.value\<close> is the lower-case role name, while \<open>str(role)\<close> is the qualified
  member name, as for every enumeration that mixes in \<open>str\<close>.
\<close>

datatype AuthorRole = SYSTEM | USER | ASSISTANT | TOOL | DEVELOPER

fun role_value :: "AuthorRole \<Rightarrow> string" where
  "role_value SYSTEM = ''system''"
| "role_value USER = ''user''"
| "role_value ASSISTANT = ''assistant''"
| "role_value TOOL = ''tool''"
| "role_value DEVELOPER = ''developer''"

fun role_str :: "AuthorRole \<Rightarrow> string" where
  "role_str SYSTEM = ''AuthorRole.SYSTEM''"
| "role_str USER = ''AuthorRole.USER''"
| "role_str ASSISTANT = ''AuthorRole.ASSISTANT''"
| "role_str TOOL = ''AuthorRole.TOOL''"
| "role_str DEVELOPER = ''AuthorRole.DEVELOPER''"

record message =
  role :: AuthorRole
  content :: string

text \<open>The three \<open>add_*_message\<close> operations of a chat history append at the end.\<close>

definition add_system_message :: "string \<Rightarrow> message list \<Rightarrow> message list" where
  "add_system_message c h = h @ [\<lparr>role = SYSTEM, content = c\<rparr>]"

definition add_user_message :: "string \<Rightarrow> message list \<Rightarrow> message list" where
  "add_user_message c h = h @ [\<lparr>role = USER, content = c\<rparr>]"

definition add_assistant_message :: "string \<Rightarrow> message list \<Rightarrow> message list" where
  "add_assistant_message c h = h @ [\<lparr>role = ASSISTANT, content = c\<rparr>]"

text \<open>
  The orchestration policy prompts. The source seeds a long literal text in three places
  (\<open>initialize\<close>, \<open>create_new_session\<close>, \<open>switch_session\<close>), with small differences
  between the three copies; the texts are abbreviated here to a label each, and nothing
  below depends on what they say.
\<close>

definition policy_initialize :: string where
  "policy_initialize = ''You are the **Orchestrator AI Assistant** ... [initialize]''"

definition policy_create :: string where
  "policy_create = ''You are the **Orchestrator AI Assistant** ... [create_new_session]''"

definition policy_switch :: string where
  "policy_switch = ''You are the **Orchestrator AI Assistant** ... [switch_session]''"

section \<open>The blob store\<close>

text \<open>
  One entry of the serialised chat history, as \<open>AgentService.save_chat_history\<close> builds it.
  Chat messages have no \<open>timestamp\<close> attribute, so \<open>getattr(message, 'timestamp', None)\<close>
  is \<open>None\<close>.
\<close>

record chat_record =
  rec_role :: string
  rec_content :: string
  rec_timestamp :: "string option"

record chat_document =
  doc_session_id :: string
  doc_timestamp :: string
  doc_message_count :: nat
  doc_chat_history :: "chat_record list"

text \<open>
  A reading of the clock at the moment of a save: the two \<open>strftime\<close> renderings and the
  ISO rendering of \<open>datetime.now()\<close> that the source uses, and the last-modified marker
  the store gives to a blob uploaded at that moment.
\<close>

record clock =
  stamp :: string
  label :: string
  iso :: string
  modified :: nat

record blob =
  last_modified :: nat
  document :: chat_document

text \<open>The container: blob names with their blobs, in the order in which the store lists them.\<close>

type_synonym container = "(string \<times> blob) list"

text \<open>\<open>upload_blob(..., overwrite=True)\<close>: a blob of the same name is replaced.\<close>

fun upload_blob :: "string \<Rightarrow> blob \<Rightarrow> container \<Rightarrow> container" where
  "upload_blob n b [] = [(n, b)]"
| "upload_blob n b ((m, x) # rest) =
     (if m = n then (n, b) # rest else (m, x) # upload_blob n b rest)"

text \<open>\<open>ChatStorageService.save_chat_history\<close>: returns the blob name and the new container.\<close>

definition storage_save_chat_history ::
  "clock \<Rightarrow> chat_record list \<Rightarrow> string \<Rightarrow> container \<Rightarrow> string \<times> container" where
  "storage_save_chat_history now chat_data session_id c =
     (let sid = (if session_id = [] then ''chat_session_'' @ stamp now else session_id);
          blob_name = sid @ ''.json'';
          chat_document = \<lparr>doc_session_id = sid, doc_timestamp = iso now,
                           doc_message_count = length chat_data,
                           doc_chat_history = chat_data\<rparr>
      in (blob_name, upload_blob blob_name
                       \<lparr>last_modified = modified now, document = chat_document\<rparr> c))"

text \<open>\<open>ChatStorageService.load_chat_history\<close>: \<open>None\<close> when the blob is not found.\<close>

definition storage_load_chat_history :: "string \<Rightarrow> container \<Rightarrow> chat_document option" where
  "storage_load_chat_history blob_name c = map_option document (map_of c blob_name)"

record session_info =
  blob_name :: string
  info_session_id :: string
  info_last_modified :: nat

text \<open>The listing loop: stops at \<open>limit\<close> sessions, keeps the names ending in \<open>.json\<close>.\<close>

fun collect_sessions :: "nat \<Rightarrow> container \<Rightarrow> session_info list \<Rightarrow> session_info list" where
  "collect_sessions limit [] sessions = sessions"
| "collect_sessions limit ((n, b) # rest) sessions =
     (if length sessions \<ge> limit then sessions
      else if endswith n ''.json''
      then collect_sessions limit rest
             (sessions @ [\<lparr>blob_name = n, info_session_id = replace ''.json'' '''' n,
                           info_last_modified = last_modified b\<rparr>])
      else collect_sessions limit rest sessions)"

text \<open>\<open>sessions.sort(key=last_modified, reverse=True)\<close>: newest first, stable.\<close>

fun insert_desc :: "session_info \<Rightarrow> session_info list \<Rightarrow> session_info list" where
  "insert_desc x [] = [x]"
| "insert_desc x (y # ys) =
     (if info_last_modified y > info_last_modified x then y # insert_desc x ys
      else x # y # ys)"

definition sort_desc :: "session_info list \<Rightarrow> session_info list" where
  "sort_desc xs = foldr insert_desc xs []"

definition list_chat_sessions :: "container \<Rightarrow> session_info list" where
  "list_chat_sessions c = sort_desc (collect_sessions 50 c [])"

section \<open>The agent service: session state\<close>

datatype error = ValueError string | AttributeError string | IndexError string

record agent_state =
  kernel :: bool
  conversation :: "message list option"
  chat_storage :: "container option"
  current_session_id :: string

text \<open>\<open>AgentService.__init__\<close>.\<close>

definition init_state :: agent_state where
  "init_state = \<lparr>kernel = False, conversation = None, chat_storage = None,
                  current_session_id = ''main_session''\<rparr>"

text \<open>
  The serialisation loop of \<open>AgentService.save_chat_history\<close>; \<open>rs\<close> is the rendering of
  the role, which the source takes with \<open>str(message.role)\<close>.
\<close>

definition to_chat_data :: "(AuthorRole \<Rightarrow> string) \<Rightarrow> message list \<Rightarrow> chat_record list" where
  "to_chat_data rs h =
     map (\<lambda>m. \<lparr>rec_role = rs (role m), rec_content = content m, rec_timestamp = None\<rparr>) h"

text \<open>\<open>AgentService.save_chat_history\<close>: the error is re-raised to the caller.\<close>

definition save_chat_history :: "clock \<Rightarrow> agent_state \<Rightarrow> error + (string \<times> agent_state)" where
  "save_chat_history now s =
     (case chat_storage s of
        None \<Rightarrow> Inl (ValueError ''Chat storage not initialized'')
      | Some c \<Rightarrow>
          (case conversation s of
             None \<Rightarrow> Inl (AttributeError ''messages'')
           | Some h \<Rightarrow>
               (let (blob_name, c') =
                      storage_save_chat_history now (to_chat_data role_str h)
                        (current_session_id s) c
                in Inr (blob_name, s\<lparr>chat_storage := Some c'\<rparr>))))"

text \<open>\<open>AgentService.has_user_messages\<close>: some message whose role value is not \<open>system\<close>.\<close>

definition has_user_messages :: "agent_state \<Rightarrow> bool" where
  "has_user_messages s =
     (case conversation s of
        None \<Rightarrow> False
      | Some h \<Rightarrow>
          if h = [] then False
          else length (filter (\<lambda>msg. lower (role_value (role msg)) \<noteq> ''system'') h) > 0)"

text \<open>
  \<open>AgentService.create_new_session\<close>. \<open>t1\<close> is the clock on entry and at the save of the
  previous session, \<open>t2\<close> the clock at the save of the new one. An error of the first save
  is raised to the caller; an error of the second is logged and dropped.
\<close>

definition create_new_session ::
  "clock \<Rightarrow> clock \<Rightarrow> string option \<Rightarrow> agent_state \<Rightarrow> error + (string \<times> agent_state)" where
  "create_new_session t1 t2 session_name s =
     (let name = (case session_name of
                    None \<Rightarrow> ''Chat '' @ label t1
                  | Some n \<Rightarrow> if n = [] then ''Chat '' @ label t1 else n)
      in case (if has_user_messages s then map_sum id snd (save_chat_history t1 s) else Inr s) of
           Inl e \<Rightarrow> Inl e
         | Inr s1 \<Rightarrow>
             (let s2 = s1\<lparr>current_session_id := replace ''/'' ''_'' (replace '' '' ''_'' name),
                          conversation := Some (add_system_message policy_create [])\<rparr>;
                  s3 = (case save_chat_history t2 s2 of Inl e \<Rightarrow> s2 | Inr (b, s') \<Rightarrow> s')
              in Inr (current_session_id s3, s3)))"

text \<open>The replay loop of \<open>switch_session\<close> and \<open>_load_most_recent_session\<close>.\<close>

definition replay_message :: "message list \<Rightarrow> chat_record \<Rightarrow> message list" where
  "replay_message h r =
     (let role = lower (rec_role r); content = rec_content r
      in if role = ''system'' then add_system_message content h
         else if role = ''user'' then add_user_message content h
         else if role = ''assistant'' then add_assistant_message content h
         else h)"

definition replay :: "chat_record list \<Rightarrow> message list" where
  "replay recs = foldl replay_message [] recs"

text \<open>
  \<open>AgentService.switch_session\<close>: every exception is caught and answered with \<open>False\<close>.
  The search takes the first listed session whose blob name contains the id.
\<close>

definition switch_session :: "clock \<Rightarrow> string \<Rightarrow> agent_state \<Rightarrow> bool \<times> agent_state" where
  "switch_session now session_id s =
     (case (if has_user_messages s then map_sum id snd (save_chat_history now s) else Inr s) of
        Inl e \<Rightarrow> (False, s)
      | Inr s1 \<Rightarrow>
          (case chat_storage s1 of
             None \<Rightarrow> (False, s1)
           | Some c \<Rightarrow>
               (case find (\<lambda>session. str_in session_id (blob_name session))
                       (list_chat_sessions c) of
                  None \<Rightarrow>
                    (True, s1\<lparr>current_session_id := session_id,
                              conversation := Some (add_system_message policy_switch [])\<rparr>)
                | Some session \<Rightarrow>
                    (case storage_load_chat_history (blob_name session) c of
                       None \<Rightarrow> (False, s1)
                     | Some chat_data \<Rightarrow>
                         (True, s1\<lparr>conversation := Some (replay (doc_chat_history chat_data)),
                                   current_session_id := session_id\<rparr>)))))"

text \<open>\<open>max(sessions, key=last_modified)\<close>: the first session with the greatest marker.\<close>

fun max_session :: "session_info \<Rightarrow> session_info list \<Rightarrow> session_info" where
  "max_session x [] = x"
| "max_session x (y # ys) =
     max_session (if info_last_modified y > info_last_modified x then y else x) ys"

text \<open>The session id that \<open>_load_most_recent_session\<close> derives from a blob name.\<close>

definition derive_session_id :: "string \<Rightarrow> error + string" where
  "derive_session_id bn =
     (let session_parts = split (CHR ''_'') (replace ''.json'' [] (replace ''chat_session_'' [] bn))
      in if length session_parts > 2
         then Inr (join ''_'' (take (length session_parts - 2) session_parts))
         else (case session_parts of
                 [] \<Rightarrow> Inl (IndexError ''list index out of range'')
               | p # ps \<Rightarrow> Inr p))"

definition recognised :: "chat_record \<Rightarrow> bool" where
  "recognised r = (lower (rec_role r) \<in> {''system'', ''user'', ''assistant''})"

text \<open>
  \<open>AgentService._load_most_recent_session\<close>: every exception is caught inside, so it
  always returns; the state is whatever had been assigned before.
\<close>

definition load_most_recent_session :: "agent_state \<Rightarrow> agent_state" where
  "load_most_recent_session s =
     (case chat_storage s of
        None \<Rightarrow> s
      | Some c \<Rightarrow>
          (case list_chat_sessions c of
             [] \<Rightarrow> s
           | x # xs \<Rightarrow>
               (let most_recent = max_session x xs; bn = blob_name most_recent
                in case derive_session_id bn of
                     Inl e \<Rightarrow> s
                   | Inr session_id \<Rightarrow>
                       (let s1 = s\<lparr>current_session_id := session_id\<rparr>
                        in case storage_load_chat_history bn c of
                             None \<Rightarrow> s1
                           | Some chat_data \<Rightarrow>
                               if doc_chat_history chat_data = [] then s1
                               else if list_ex recognised (doc_chat_history chat_data)
                               then s1\<lparr>conversation := Some (replay (doc_chat_history chat_data))\<rparr>
                               else s1))))"

text \<open>
  \<open>AgentService.initialize\<close>, as far as the session state goes. \<open>backend\<close> is the
  container the storage service connects to, \<open>None\<close> when setting it up fails.
\<close>

definition initialize :: "container option \<Rightarrow> agent_state \<Rightarrow> agent_state" where
  "initialize backend s =
     (if kernel s then s
      else (let s1 = s\<lparr>kernel := True,
                        conversation := Some (add_system_message policy_initialize [])\<rparr>
            in if chat_storage s1 = None
               then (case backend of
                       None \<Rightarrow> s1\<lparr>chat_storage := None\<rparr>
                     | Some c \<Rightarrow> load_most_recent_session (s1\<lparr>chat_storage := Some c\<rparr>))
               else s1))"

section \<open>Python values\<close>

text \<open>
  The values a model reply and a parsed JSON document are made of. A float is carried as
  the text of its literal, and \<open>PObj\<close> stands for an object of any other type.
\<close>

datatype pyval =
    PNone
  | PBool bool
  | PInt int
  | PFloat string
  | PStr string
  | PList "pyval list"
  | PDict "(string \<times> pyval) list"
  | PObj string

section \<open>Regular expressions\<close>

text \<open>
  The part of Python's \<open>re\<close> that the patterns of the service use, as a backtracking
  matcher: a match of a pattern at a position is the list of the positions where it can
  end, in the order in which \<open>re\<close> tries them (greedy repetition longest first, lazy
  repetition shortest first, alternatives from the left), so that the head of the list is
  the match that \<open>re\<close> reports. Repetition is only ever applied to a single character
  class in these patterns.
\<close>

text \<open>
  What \<open>\\s\<close> and \<open>str.strip\<close> take for white space, among the 8-bit characters.
\<close>

definition isspace :: "char \<Rightarrow> bool" where
  "isspace c = ((of_char c :: nat) \<in> {9, 10, 11, 12, 13, 28, 29, 30, 31, 32, 133, 160})"

definition strip :: "string \<Rightarrow> string" where
  "strip s = rev (dropWhile isspace (rev (dropWhile isspace s)))"

text \<open>
  Character classes: \<open>.\<close> without and with \<open>DOTALL\<close>, \<open>\\s\<close>, and a negated set.
\<close>

datatype cls = Dot | DotAll | Space | NoneOf string

fun cls_ok :: "cls \<Rightarrow> char \<Rightarrow> bool" where
  "cls_ok Dot x = (x \<noteq> CHR 0x0A)"
| "cls_ok DotAll x = True"
| "cls_ok Space x = isspace x"
| "cls_ok (NoneOf cs) x = (x \<notin> set cs)"

text \<open>
  Patterns: a literal (exact, or under \<open>IGNORECASE\<close>), one character of a class, its
  greedy and lazy repetition, \<open>^\<close> and \<open>$\<close> (without \<open>MULTILINE\<close>), concatenation and
  alternation.
\<close>

datatype rx =
    Lit string
  | LitI string
  | One cls
  | Star cls
  | Lazy cls
  | Bol
  | Eol
  | Cat "rx list"
  | Or "rx list"

text \<open>
  A position in the subject: its index and the rest of the string from there.
\<close>

type_synonym pos = "nat \<times> string"

fun lit :: "(char \<Rightarrow> char) \<Rightarrow> string \<Rightarrow> pos \<Rightarrow> pos list" where
  "lit f [] st = [st]"
| "lit f (c # cs) (i, []) = []"
| "lit f (c # cs) (i, x # xs) = (if f x = f c then lit f cs (Suc i, xs) else [])"

fun star :: "cls \<Rightarrow> pos \<Rightarrow> pos list" where
  "star k (i, []) = [(i, [])]"
| "star k (i, x # xs) = (if cls_ok k x then star k (Suc i, xs) else []) @ [(i, x # xs)]"

fun lazy_star :: "cls \<Rightarrow> pos \<Rightarrow> pos list" where
  "lazy_star k (i, []) = [(i, [])]"
| "lazy_star k (i, x # xs) = (i, x # xs) # (if cls_ok k x then lazy_star k (Suc i, xs) else [])"

fun matches :: "rx \<Rightarrow> pos \<Rightarrow> pos list" where
  "matches (Lit s) st = lit id s st"
| "matches (LitI s) st = lit lower_char s st"
| "matches (One k) (i, []) = []"
| "matches (One k) (i, x # xs) = (if cls_ok k x then [(Suc i, xs)] else [])"
| "matches (Star k) st = star k st"
| "matches (Lazy k) st = lazy_star k st"
| "matches Bol (i, s) = (if i = 0 then [(i, s)] else [])"
| "matches Eol (i, s) = (if s = [] \<or> s = [CHR 0x0A] then [(i, s)] else [])"
| "matches (Cat []) st = [st]"
| "matches (Cat (r # rs)) st = concat (map (matches (Cat rs)) (matches r st))"
| "matches (Or []) st = []"
| "matches (Or (r # rs)) st = matches r st @ matches (Or rs) st"

text \<open>
  A pattern with one capturing group is given in three parts: what stands before the
  group, the group, what stands after. The first match at a position gives the text of
  the group.
\<close>

definition match_group :: "rx \<Rightarrow> rx \<Rightarrow> rx \<Rightarrow> pos \<Rightarrow> string option" where
  "match_group pre grp post st =
     (case [take (fst s2 - fst s1) (snd s1). s1 \<leftarrow> matches pre st, s2 \<leftarrow> matches grp s1, s3 \<leftarrow> matches post s2] of
        [] \<Rightarrow> None
      | g # gs \<Rightarrow> Some g)"

text \<open>
  \<open>re.search(pattern, s).group(1)\<close>: the leftmost position with a match.
\<close>

fun re_search_group_from :: "rx \<Rightarrow> rx \<Rightarrow> rx \<Rightarrow> pos \<Rightarrow> string option" where
  "re_search_group_from pre grp post (i, []) = match_group pre grp post (i, [])"
| "re_search_group_from pre grp post (i, x # xs) =
     (case match_group pre grp post (i, x # xs) of
        Some g \<Rightarrow> Some g
      | None \<Rightarrow> re_search_group_from pre grp post (Suc i, xs))"

definition re_search_group :: "rx \<times> rx \<times> rx \<Rightarrow> string \<Rightarrow> string option" where
  "re_search_group p s = (case p of (pre, grp, post) \<Rightarrow> re_search_group_from pre grp post (0, s))"

text \<open>
  \<open>bool(re.search(pattern, s))\<close>.
\<close>

fun re_search_from :: "rx \<Rightarrow> pos \<Rightarrow> bool" where
  "re_search_from r (i, []) = (matches r (i, []) \<noteq> [])"
| "re_search_from r (i, x # xs) = (matches r (i, x # xs) \<noteq> [] \<or> re_search_from r (Suc i, xs))"

definition re_search :: "rx \<Rightarrow> string \<Rightarrow> bool" where
  "re_search r s = re_search_from r (0, s)"

text \<open>
  \<open>re.sub(pattern, '', s)\<close> for a pattern that matches no empty string: every match,
  from the left, is dropped.
\<close>

function re_sub_from :: "rx \<Rightarrow> pos \<Rightarrow> string" where
  "re_sub_from r (i, s) =
     (case matches r (i, s) of
        (j, rest) # others \<Rightarrow>
          if length rest < length s then re_sub_from r (j, rest)
          else (case s of [] \<Rightarrow> [] | x # xs \<Rightarrow> x # re_sub_from r (Suc i, xs))
      | [] \<Rightarrow> (case s of [] \<Rightarrow> [] | x # xs \<Rightarrow> x # re_sub_from r (Suc i, xs)))"
  by pat_completeness auto
termination
  by (relation "measure (\<lambda>(r, i, s). length s)") auto

definition re_sub :: "rx \<Rightarrow> string \<Rightarrow> string" where
  "re_sub r s = re_sub_from r (0, s)"


section \<open>json.loads\<close>

text \<open>
  The decoder of Python's \<open>json\<close> module on 8-bit strings: \<open>None\<close> stands for
  \<open>JSONDecodeError\<close>. A \<open>\\u\<close> escape above \<open>00ff\<close> has no character here and is taken
  as an error. The scanner is written with a fuel argument; \<open>json_loads\<close> gives it twice
  the length of the text and two: a nested call is made only after a character of the text
  has been read.
\<close>

definition json_ws :: "char \<Rightarrow> bool" where
  "json_ws c = (c \<in> {CHR '' '', CHR 0x09, CHR 0x0A, CHR 0x0D})"

definition skip_ws :: "string \<Rightarrow> string" where
  "skip_ws s = dropWhile json_ws s"

definition is_digit :: "char \<Rightarrow> bool" where
  "is_digit c = (48 \<le> (of_char c :: nat) \<and> (of_char c :: nat) \<le> 57)"

definition digits_value :: "string \<Rightarrow> nat" where
  "digits_value ds = foldl (\<lambda>n d. 10 * n + (of_char d - 48)) 0 ds"

definition hex_digit :: "char \<Rightarrow> nat option" where
  "hex_digit c =
     (let n = (of_char c :: nat)
      in if 48 \<le> n \<and> n \<le> 57 then Some (n - 48)
         else if 65 \<le> n \<and> n \<le> 70 then Some (n - 55)
         else if 97 \<le> n \<and> n \<le> 102 then Some (n - 87)
         else None)"

definition hex4 :: "string \<Rightarrow> nat option" where
  "hex4 s =
     (case map hex_digit s of
        [Some a, Some b, Some c, Some d] \<Rightarrow> Some (((a * 16 + b) * 16 + c) * 16 + d)
      | _ \<Rightarrow> None)"

definition unescape :: "char \<Rightarrow> char option" where
  "unescape e =
     (if e = CHR 0x22 then Some (CHR 0x22)
      else if e = CHR 0x5C then Some (CHR 0x5C)
      else if e = CHR ''/'' then Some (CHR ''/'')
      else if e = CHR ''b'' then Some (CHR 0x08)
      else if e = CHR ''f'' then Some (CHR 0x0C)
      else if e = CHR ''n'' then Some (CHR 0x0A)
      else if e = CHR ''r'' then Some (CHR 0x0D)
      else if e = CHR ''t'' then Some (CHR 0x09)
      else None)"

fun scan_string :: "string \<Rightarrow> (string \<times> string) option" where
  "scan_string [] = None"
| "scan_string (c # cs) =
     (if c = CHR 0x22 then Some ([], cs)
      else if c = CHR 0x5C then
        (case cs of
           [] \<Rightarrow> None
         | e # es \<Rightarrow>
             if e = CHR ''u'' then
               (case hex4 (take 4 es) of
                  None \<Rightarrow> None
                | Some cp \<Rightarrow>
                    if cp < 256
                    then map_option (apfst ((#) (char_of cp))) (scan_string (drop 4 es))
                    else None)
             else
               (case unescape e of
                  None \<Rightarrow> None
                | Some ch \<Rightarrow> map_option (apfst ((#) ch)) (scan_string es)))
      else if (of_char c :: nat) < 32 then None
      else map_option (apfst ((#) c)) (scan_string cs))"

text \<open>
  The number literal at the head of the text: an integer, or a float kept as its text.
\<close>

definition scan_number :: "string \<Rightarrow> (pyval \<times> string) option" where
  "scan_number s =
     (let (sign, s1) = (if prefix ''-'' s then (''-'', drop 1 s) else ('''', s));
          ip = (if prefix ''0'' s1 then ''0'' else takeWhile is_digit s1);
          s2 = drop (length ip) s1;
          fp = (if prefix ''.'' s2 \<and> takeWhile is_digit (drop 1 s2) \<noteq> []
                then ''.'' @ takeWhile is_digit (drop 1 s2) else '''');
          s3 = drop (length fp) s2;
          es = (if prefix ''+'' (drop 1 s3) \<or> prefix ''-'' (drop 1 s3) then take 1 (drop 1 s3) else '''');
          ed = takeWhile is_digit (drop (1 + length es) s3);
          ep = (if (prefix ''e'' s3 \<or> prefix ''E'' s3) \<and> ed \<noteq> [] then take 1 s3 @ es @ ed else '''');
          s4 = drop (length ep) s3
      in if ip = [] then None
         else if fp = [] \<and> ep = []
         then Some (PInt (if sign = ''-'' then - int (digits_value ip) else int (digits_value ip)), s4)
         else Some (PFloat (sign @ ip @ fp @ ep), s4))"

text \<open>
  \<open>d[k] = v\<close>: a key already present keeps its place.
\<close>

fun dict_set :: "string \<Rightarrow> pyval \<Rightarrow> (string \<times> pyval) list \<Rightarrow> (string \<times> pyval) list" where
  "dict_set k v [] = [(k, v)]"
| "dict_set k v ((k', v') # d) = (if k' = k then (k, v) # d else (k', v') # dict_set k v d)"

text \<open>
  The dictionary of a list of members: of two members with one key the later wins.
\<close>

definition mk_dict :: "(string \<times> pyval) list \<Rightarrow> (string \<times> pyval) list" where
  "mk_dict pairs = foldl (\<lambda>d (k, v). dict_set k v d) [] pairs"

text \<open>
  The value at the head of the text, the members of an object and the elements of an array.
\<close>

fun scan_once :: "nat \<Rightarrow> string \<Rightarrow> (pyval \<times> string) option"
  and scan_members :: "nat \<Rightarrow> string \<Rightarrow> ((string \<times> pyval) list \<times> string) option"
  and scan_elements :: "nat \<Rightarrow> string \<Rightarrow> (pyval list \<times> string) option"
where
  "scan_once 0 s = None"
| "scan_once (Suc n) s =
     (if prefix [CHR 0x22] s then map_option (apfst PStr) (scan_string (drop 1 s))
      else if prefix ''{'' s then
        (if prefix ''}'' (skip_ws (drop 1 s)) then Some (PDict [], drop 1 (skip_ws (drop 1 s)))
         else map_option (apfst (PDict \<circ> mk_dict)) (scan_members n (skip_ws (drop 1 s))))
      else if prefix ''['' s then
        (if prefix '']'' (skip_ws (drop 1 s)) then Some (PList [], drop 1 (skip_ws (drop 1 s)))
         else map_option (apfst PList) (scan_elements n (skip_ws (drop 1 s))))
      else if prefix ''null'' s then Some (PNone, drop 4 s)
      else if prefix ''true'' s then Some (PBool True, drop 4 s)
      else if prefix ''false'' s then Some (PBool False, drop 5 s)
      else (case scan_number s of
              Some r \<Rightarrow> Some r
            | None \<Rightarrow>
                if prefix ''NaN'' s then Some (PFloat ''NaN'', drop 3 s)
                else if prefix ''Infinity'' s then Some (PFloat ''Infinity'', drop 8 s)
                else if prefix ''-Infinity'' s then Some (PFloat ''-Infinity'', drop 9 s)
                else None))"
| "scan_members 0 s = None"
| "scan_members (Suc n) s =
     (if prefix [CHR 0x22] s then
        (case scan_string (drop 1 s) of
           None \<Rightarrow> None
         | Some (k, r1) \<Rightarrow>
             if prefix '':'' (skip_ws r1) then
               (case scan_once n (skip_ws (drop 1 (skip_ws r1))) of
                  None \<Rightarrow> None
                | Some (v, r2) \<Rightarrow>
                    if prefix ''}'' (skip_ws r2) then Some ([(k, v)], drop 1 (skip_ws r2))
                    else if prefix '','' (skip_ws r2)
                    then map_option (apfst ((#) (k, v)))
                           (scan_members n (skip_ws (drop 1 (skip_ws r2))))
                    else None)
             else None)
      else None)"
| "scan_elements 0 s = None"
| "scan_elements (Suc n) s =
     (case scan_once n s of
        None \<Rightarrow> None
      | Some (v, r) \<Rightarrow>
          if prefix '']'' (skip_ws r) then Some ([v], drop 1 (skip_ws r))
          else if prefix '','' (skip_ws r)
          then map_option (apfst ((#) v)) (scan_elements n (skip_ws (drop 1 (skip_ws r))))
          else None)"

definition json_loads :: "string \<Rightarrow> pyval option" where
  "json_loads s =
     (case scan_once (2 * length s + 2) (skip_ws s) of
        None \<Rightarrow> None
      | Some (v, rest) \<Rightarrow> if skip_ws rest = [] then Some v else None)"

section \<open>The response normalizer\<close>

text \<open>
  What \<open>str(v)\<close> and \<open>json.dumps(v, indent=2)\<close> give for a value is left open: the
  functions below take the two renderings as a parameter. \<open>dumps\<close> answers \<open>Inl\<close> with
  the message of the exception when the value cannot be serialised.
\<close>

record renderer =
  str_of :: "pyval \<Rightarrow> string"
  dumps :: "pyval \<Rightarrow> string + string"

definition dict_get :: "(string \<times> pyval) list \<Rightarrow> string \<Rightarrow> pyval option" where
  "dict_get d k = map_of d k"

definition setdefault :: "string \<Rightarrow> pyval \<Rightarrow> (string \<times> pyval) list \<Rightarrow> (string \<times> pyval) list" where
  "setdefault k v d = (if dict_get d k = None then d @ [(k, v)] else d)"

text \<open>
  The rendering of one item in the list branch of \<open>_ensure_string_content\<close>.
\<close>

definition item_string :: "renderer \<Rightarrow> pyval \<Rightarrow> string + string" where
  "item_string R item =
     (case item of
        PDict d \<Rightarrow>
          (case dict_get d ''content'' of
             Some v \<Rightarrow> Inr (str_of R v)
           | None \<Rightarrow> dumps R item)
      | PStr s \<Rightarrow> Inr s
      | _ \<Rightarrow> Inr (str_of R item))"

text \<open>
  The loop over the items; an exception leaves the loop.
\<close>

fun string_items :: "renderer \<Rightarrow> pyval list \<Rightarrow> string list \<Rightarrow> string + string list" where
  "string_items R [] acc = Inr acc"
| "string_items R (item # items) acc =
     (case item_string R item of
        Inl e \<Rightarrow> Inl e
      | Inr s \<Rightarrow> string_items R items (acc @ [s]))"

text \<open>
  \<open>AgentService._ensure_string_content\<close>: every exception is caught and turned into a
  diagnostic string.
\<close>

function ensure_string_content :: "renderer \<Rightarrow> pyval \<Rightarrow> string" where
  "ensure_string_content R PNone = ''No response received''"
| "ensure_string_content R (PStr s) = s"
| "ensure_string_content R (PList items) =
     (case string_items R items [] of
        Inl e \<Rightarrow> ''Error processing content: '' @ e
      | Inr strs \<Rightarrow> join [CHR 0x0A] strs)"
| "ensure_string_content R (PDict d) =
     (case dict_get d ''content'' of
        Some v \<Rightarrow> ensure_string_content R v
      | None \<Rightarrow>
          (case dumps R (PDict d) of
             Inl e \<Rightarrow> ''Error processing content: '' @ e
           | Inr s \<Rightarrow> s))"
| "ensure_string_content R (PBool b) = str_of R (PBool b)"
| "ensure_string_content R (PInt i) = str_of R (PInt i)"
| "ensure_string_content R (PFloat f) = str_of R (PFloat f)"
| "ensure_string_content R (PObj x) = str_of R (PObj x)"
  by pat_completeness auto
termination
proof (relation "measure (\<lambda>(R, v). size v)")
  fix R :: renderer and d :: "(string \<times> pyval) list" and v
  assume "dict_get d ''content'' = Some v"
  then have "(''content'', v) \<in> set d"
    by (simp add: dict_get_def map_of_SomeD)
  then have "size v \<le> size_list (size_prod (\<lambda>_. 0) size) d"
    by (induction d) auto
  then show "((R, v), (R, PDict d)) \<in> measure (\<lambda>(R, v). size v)"
    by simp
qed simp

text \<open>
  The four patterns of \<open>_try_parse_json\<close>, searched with \<open>DOTALL\<close> and
  \<open>IGNORECASE\<close>.
\<close>

definition json_patterns :: "(rx \<times> rx \<times> rx) list" where
  "json_patterns =
     [(Cat [LitI ''```json'', Star Space], Cat [Lit ''{'', Lazy DotAll, Lit ''}''],
       Cat [Star Space, Lit ''```'']),
      (Cat [Lit ''```'', Star Space], Cat [Lit ''{'', Lazy DotAll, Lit ''}''],
       Cat [Star Space, Lit ''```'']),
      (Cat [], Cat [Lit ''{'', Star (NoneOf ''{}''), LitI ''\"content\"'', Star (NoneOf ''{}''),
                    Lit ''}''], Cat []),
      (Cat [], Cat [Lit ''{'', Lazy DotAll, LitI ''\"metadata\"'', Lazy DotAll, Lit ''}''],
       Cat [])]"

text \<open>
  \<open>json.loads\<close> followed by the test that the result is a dictionary.
\<close>

definition loads_dict :: "string \<Rightarrow> (string \<times> pyval) list option" where
  "loads_dict s = (case json_loads s of Some (PDict d) \<Rightarrow> Some d | _ \<Rightarrow> None)"

text \<open>
  Strategy 1: the loop over the patterns; a decoding error goes on to the next pattern.
\<close>

fun try_patterns :: "(rx \<times> rx \<times> rx) list \<Rightarrow> string \<Rightarrow> (string \<times> pyval) list option" where
  "try_patterns [] content' = None"
| "try_patterns (pattern # patterns) content' =
     (case re_search_group pattern content' of
        None \<Rightarrow> try_patterns patterns content'
      | Some json_str \<Rightarrow>
          (case loads_dict json_str of
             Some parsed \<Rightarrow> Some parsed
           | None \<Rightarrow> try_patterns patterns content'))"

text \<open>
  \<open>s.strip().startswith('{') and s.strip().endswith('}')\<close>.
\<close>

definition braced :: "string \<Rightarrow> bool" where
  "braced s = (prefix ''{'' (strip s) \<and> suffix ''}'' (strip s))"

text \<open>
  The two \<open>re.sub\<close> calls of strategy 3, searched without flags.
\<close>

definition fix_fences :: "string \<Rightarrow> string" where
  "fix_fences content' =
     re_sub (Or [Cat [Bol, Star Space, Lit ''```'', Star Space],
              Cat [Star Space, Lit ''```'', Star Space, Eol]])
       (re_sub (Or [Cat [Lit ''```json'', Star Space], Cat [Star Space, Lit ''```'']]) content')"

text \<open>
  \<open>AgentService._try_parse_json\<close>.
\<close>

definition try_parse_json :: "string \<Rightarrow> (string \<times> pyval) list option" where
  "try_parse_json content' =
     (case try_patterns json_patterns content' of
        Some parsed \<Rightarrow> Some parsed
      | None \<Rightarrow>
          (case (if braced content' then loads_dict content' else None) of
             Some parsed \<Rightarrow> Some parsed
           | None \<Rightarrow>
               (let fixed_content = fix_fences content'
                in if braced fixed_content then loads_dict fixed_content else None)))"

text \<open>
  The five patterns of \<open>_fallback_content_analysis\<close>, searched with \<open>IGNORECASE\<close>.
\<close>

definition userstory_rx :: rx where
  "userstory_rx =
     Or [LitI ''user story'',
         Cat [LitI ''as a '', One Dot, Lazy Dot, LitI ''i want'', One Dot, Lazy Dot, LitI ''so that''],
         Cat [LitI ''story'', Star Dot, Lit '':'']]"

definition testcase_rx :: rx where
  "testcase_rx =
     Or [LitI ''test case'', LitI ''test scenario'',
         Cat [LitI ''given'', One Dot, Lazy Dot, LitI ''when'', One Dot, Lazy Dot, LitI ''then''],
         Cat [LitI ''test'', Star Dot, Lit '':'']]"

definition devtask_rx :: rx where
  "devtask_rx =
     Or [LitI ''development task'', LitI ''dev task'',
         Cat [LitI ''task'', Star Dot, Lit '':''],
         LitI ''implementation'',
         Cat [LitI ''work item'', Star Dot, LitI ''created''],
         Cat [LitI ''task'', Star Dot, LitI ''title'']]"

definition needs_clarification_rx :: rx where
  "needs_clarification_rx =
     Or [Cat [LitI ''need'', Star Dot, LitI ''others'', Star Dot, LitI ''info''],
         LitI ''clarification'',
         Cat [LitI ''missing'', Star Dot, LitI ''detail''],
         Cat [LitI ''please'', Star Dot, LitI ''provide'']]"

definition needs_save_confirmation_rx :: rx where
  "needs_save_confirmation_rx =
     Or [Cat [LitI ''save'', Star Dot, LitI ''azure''],
         Cat [LitI ''create'', Star Dot, LitI ''work'', Star Dot, LitI ''item''],
         Cat [LitI ''add'', Star Dot, LitI ''to'', Star Dot, LitI ''board'']]"

type_synonym envelope = "(string \<times> pyval) list"

text \<open>
  \<open>AgentService._fallback_content_analysis\<close>. On a string the classification cannot
  fail; on any other value \<open>content.lower()\<close> raises, and the handler answers with the
  text of the value and the five flags false.
\<close>

definition fallback_content_analysis :: "renderer \<Rightarrow> pyval \<Rightarrow> envelope" where
  "fallback_content_analysis R content' =
     (case content' of
        PStr s \<Rightarrow>
          [(''content'', PStr s),
           (''metadata'',
            PDict [(''userstory'', PBool (re_search userstory_rx s)),
                   (''testcase'', PBool (re_search testcase_rx s)),
                   (''devtask'', PBool (re_search devtask_rx s)),
                   (''needs_clarification'', PBool (re_search needs_clarification_rx s)),
                   (''needs_save_confirmation'', PBool (re_search needs_save_confirmation_rx s))])]
      | _ \<Rightarrow>
          [(''content'', PStr (str_of R content')),
           (''metadata'',
            PDict [(''userstory'', PBool False),
                   (''testcase'', PBool False),
                   (''devtask'', PBool False),
                   (''needs_clarification'', PBool False),
                   (''needs_save_confirmation'', PBool False)])])"

text \<open>
  The five \<open>metadata.setdefault(key, False)\<close> calls.
\<close>

definition set_default_metadata :: "(string \<times> pyval) list \<Rightarrow> (string \<times> pyval) list" where
  "set_default_metadata metadata =
     setdefault ''needs_save_confirmation'' (PBool False)
       (setdefault ''needs_clarification'' (PBool False)
          (setdefault ''devtask'' (PBool False)
             (setdefault ''testcase'' (PBool False)
                (setdefault ''userstory'' (PBool False) metadata))))"

text \<open>
  \<open>AgentService._validate_and_normalize_json\<close>. The dictionary returned is the parsed one,
  updated: keys other than \<open>content\<close> and \<open>metadata\<close> stay in it.
\<close>

definition validate_and_normalize_json :: "renderer \<Rightarrow> envelope \<Rightarrow> string \<Rightarrow> envelope" where
  "validate_and_normalize_json R parsed_json fallback_content =
     (let p1 = (case dict_get parsed_json ''content'' of
                  None \<Rightarrow> dict_set ''content'' (PStr fallback_content) parsed_json
                | Some c \<Rightarrow> dict_set ''content'' (PStr (ensure_string_content R c)) parsed_json);
          p2 = (if dict_get p1 ''metadata'' = None then dict_set ''metadata'' (PDict []) p1 else p1);
          metadata = (case dict_get p2 ''metadata'' of Some (PDict md) \<Rightarrow> md | _ \<Rightarrow> [])
      in dict_set ''metadata'' (PDict (set_default_metadata metadata)) p2)"

text \<open>
  \<open>AgentService._parse_response\<close>. An empty dictionary is false in the test \<open>if parsed_json\<close>.
  (The source's variable \<open>content\<close> is written \<open>content'\<close> in this section, the plain name
  being the field of a message.)
\<close>

definition parse_response :: "renderer \<Rightarrow> pyval \<Rightarrow> envelope" where
  "parse_response R content' =
     (let processed_content = ensure_string_content R content'
      in case try_parse_json processed_content of
           Some parsed_json \<Rightarrow>
             if parsed_json \<noteq> [] then validate_and_normalize_json R parsed_json processed_content
             else fallback_content_analysis R (PStr processed_content)
         | None \<Rightarrow> fallback_content_analysis R (PStr processed_content))"

text \<open>
  Three replies used below.
\<close>

definition fenced_reply :: string where
  "fenced_reply = ''```json\<newline>{\"content\":\"hi\",\"metadata\":{\"userstory\":true}}\<newline>```''"







section \<open>Concrete states used below\<close>

definition clock1 :: clock where
  "clock1 = \<lparr>stamp = ''20250101_120000'', label = ''01/01 12:00'',
              iso = ''2025-01-01T12:00:00'', modified = 1\<rparr>"

definition clock2 :: clock where
  "clock2 = \<lparr>stamp = ''20250101_120005'', label = ''01/01 12:00'',
              iso = ''2025-01-01T12:00:05'', modified = 2\<rparr>"

text \<open>The service after \<open>initialize\<close> against an empty container.\<close>

definition ready_state :: agent_state where
  "ready_state = initialize (Some []) init_state"

text \<open>The same with one user message appended to the transcript.\<close>

definition chatting_state :: agent_state where
  "chatting_state =
     ready_state\<lparr>conversation := map_option (add_user_message ''hi'') (conversation ready_state)\<rparr>"

text \<open>The same after a checkpoint.\<close>

definition saved_state :: agent_state where
  "saved_state =
     (case save_chat_history clock1 chatting_state of Inr (b, s) \<Rightarrow> s | Inl e \<Rightarrow> chatting_state)"

text \<open>A second checkpoint of the same session, one assistant message later.\<close>

definition resaved_state :: agent_state where
  "resaved_state =
     (case save_chat_history clock2
             (saved_state\<lparr>conversation :=
                map_option (add_assistant_message ''hello'') (conversation saved_state)\<rparr>) of
        Inr (b, s) \<Rightarrow> s | Inl e \<Rightarrow> saved_state)"

text \<open>The service initialised without a reachable store, one user message in.\<close>

definition offline_state :: agent_state where
  "offline_state =
     (let s = initialize None init_state
      in s\<lparr>conversation := map_option (add_user_message ''hi'') (conversation s)\<rparr>)"

text \<open>The service after \<open>create_new_session("a")\<close> on the fresh state.\<close>

definition created_state :: agent_state where
  "created_state =
     (case create_new_session clock1 clock2 (Some ''a'') ready_state of
        Inr (i, s) \<Rightarrow> s | Inl e \<Rightarrow> ready_state)"

section \<open>Properties of the session manager\<close>



lemma map_of_upload_blob: "map_of (upload_blob n b c) = (map_of c)(n \<mapsto> b)"
  by (induction c) (auto simp: fun_eq_iff)

lemma replay_role_str: "foldl replay_message acc (to_chat_data role_str h) = acc"
proof (induction h arbitrary: acc)
  case Nil then show ?case by (simp add: to_chat_data_def)
next
  case (Cons m h)
  have "replay_message acc \<lparr>rec_role = role_str (role m), rec_content = content m, rec_timestamp = None\<rparr> = acc"
    by (cases "role m") (simp_all add: replay_message_def lower_def lower_char_def Let_def)
  with Cons show ?case by (simp add: to_chat_data_def)
qed



lemma replace_char: "replace [a] [b] s = map (\<lambda>c. if c = a then b else c) s"
  by (induction s) auto

lemma replay_role_value_aux:
  "foldl replay_message acc (to_chat_data role_value h) =
     acc @ filter (\<lambda>m. role m \<in> {SYSTEM, USER, ASSISTANT}) h"
proof (induction h arbitrary: acc)
  case Nil then show ?case by (simp add: to_chat_data_def)
next
  case (Cons m h)
  have "replay_message acc \<lparr>rec_role = role_value (role m), rec_content = content m, rec_timestamp = None\<rparr>
        = acc @ filter (\<lambda>m. role m \<in> {SYSTEM, USER, ASSISTANT}) [m]"
    by (cases "role m") (simp_all add: replay_message_def lower_def lower_char_def Let_def
        add_system_message_def add_user_message_def add_assistant_message_def)
  with Cons show ?case by (simp add: to_chat_data_def)
qed

lemma replay_to_chat_data_role_value:
  "replay (to_chat_data role_value h) = filter (\<lambda>m. role m \<in> {SYSTEM, USER, ASSISTANT}) h"
  by (simp add: replay_def replay_role_value_aux)






text \<open>
  C5, on the code. A checkpoint stores \<open>str(message.role)\<close>, the qualified member name
  (\<open>AuthorRole.USER\<close>), while the replay keeps a stored message only when its lower-cased
  role is \<open>system\<close>, \<open>user\<close> or \<open>assistant\<close>. So the snapshot of a transcript of
  two messages, saved and loaded back, replays to no message at all. (With the role
  rendered by its value, as \<open>has_user_messages\<close> reads it, the replay gives the
  transcript back: lemma \<open>replay_to_chat_data_role_value\<close>.)
\<close>

theorem saved_transcript_replays_empty:
  "to_chat_data role_str (the (conversation chatting_state)) =
     [\<lparr>rec_role = ''AuthorRole.SYSTEM'', rec_content = policy_initialize, rec_timestamp = None\<rparr>,
      \<lparr>rec_role = ''AuthorRole.USER'', rec_content = ''hi'', rec_timestamp = None\<rparr>] \<and>
   map_option (replay \<circ> doc_chat_history)
     (Option.bind (chat_storage saved_state) (storage_load_chat_history ''main_session.json''))
     = Some []"
  by code_simp

text \<open>
  C4, on the code. From the fresh service, \<open>create_new_session("a")\<close> and then
  \<open>switch_session("a")\<close> leave an empty transcript: the snapshot of the session is found
  and replayed, and the replay recognises none of the stored roles (the defect of C5), so
  the active transcript has no system message.
\<close>

theorem switch_back_loses_system_message:
  "conversation created_state = Some [\<lparr>role = SYSTEM, content = policy_create\<rparr>] \<and>
   switch_session clock2 ''a'' created_state = (True, created_state\<lparr>conversation := Some []\<rparr>)"
  by code_simp

text \<open>
  C3, as stated, fails: the blob name is the session id followed by \<open>.json\<close> and the upload
  overwrites, so two checkpoints of one session leave one blob, and the snapshot of two
  messages is replaced by the one of three.
\<close>

theorem save_same_id_overwrites:
  "map_option (map fst) (chat_storage saved_state) = Some [''main_session.json''] \<and>
   map_option (map fst) (chat_storage resaved_state) = Some [''main_session.json''] \<and>
   map_option doc_message_count
     (Option.bind (chat_storage saved_state) (storage_load_chat_history ''main_session.json'')) = Some 2 \<and>
   map_option doc_message_count
     (Option.bind (chat_storage resaved_state) (storage_load_chat_history ''main_session.json'')) = Some 3"
  by code_simp

lemma switch_session_store:
  "chat_storage (snd (switch_session now session_id s)) = chat_storage s \<or>
   (\<exists>b s1. has_user_messages s \<and> save_chat_history now s = Inr (b, s1) \<and>
      chat_storage (snd (switch_session now session_id s)) = chat_storage s1)"
proof (cases "has_user_messages s")
  case False
  then show ?thesis
    by (auto simp: switch_session_def split: option.splits)
next
  case True
  show ?thesis
  proof (cases "save_chat_history now s")
    case (Inl e)
    with True show ?thesis by (simp add: switch_session_def)
  next
    case (Inr r)
    obtain b s1 where r: "r = (b, s1)" by force
    with True Inr show ?thesis
      by (auto simp: switch_session_def split: option.splits)
  qed
qed

text \<open>
  C3, amended. A save writes one blob, named after the session id (after
  \<open>chat_session_\<close> and the time stamp when the id is empty), holding the serialised
  transcript; it replaces a blob of that name and leaves every blob of another name as it
  was. And \<open>switch_session\<close> leaves the container as it was, or as the save of the active
  session left it: it deletes nothing.
\<close>

theorem save_writes_one_blob:
  assumes "storage_save_chat_history now chat_data session_id c = (bn, c')"
  shows "bn = (if session_id = [] then ''chat_session_'' @ stamp now else session_id) @ ''.json'' \<and>
         map_option (doc_chat_history \<circ> document) (map_of c' bn) = Some chat_data \<and>
         (\<forall>n. n \<noteq> bn \<longrightarrow> map_of c' n = map_of c n) \<and>
         fst ` set c' = insert bn (fst ` set c) \<and>
         (chat_storage (snd (switch_session t sid s)) = chat_storage s \<or>
          (\<exists>b s1. has_user_messages s \<and> save_chat_history t s = Inr (b, s1) \<and>
             chat_storage (snd (switch_session t sid s)) = chat_storage s1))"
proof -
  have dom: "fst ` set (upload_blob n b c) = insert n (fst ` set c)" for n b
    using arg_cong [OF map_of_upload_blob [of n b c], of dom]
    by (simp add: dom_map_of_conv_image_fst)
  from assms obtain b where
    bn: "bn = (if session_id = [] then ''chat_session_'' @ stamp now else session_id) @ ''.json''"
    and c': "c' = upload_blob bn b c" and b: "doc_chat_history (document b) = chat_data"
    by (auto simp: storage_save_chat_history_def Let_def)
  show ?thesis
    using bn b switch_session_store [of t sid s] by (simp add: c' map_of_upload_blob dom)
qed

text \<open>C3, witness: a checkpoint of another session leaves the blob of \<open>main_session\<close> alone.\<close>

theorem save_writes_one_blob_witness:
  "''main_session.json'' \<noteq> ''My_Chat.json'' \<and>
   map_of (snd (storage_save_chat_history clock2 [] ''My_Chat'' (the (chat_storage saved_state))))
      ''main_session.json''
     = map_of (the (chat_storage saved_state)) ''main_session.json'' \<and>
   map_of (the (chat_storage saved_state)) ''main_session.json'' \<noteq> None"
proof -
  have a: "storage_save_chat_history clock2 [] ''My_Chat'' (the (chat_storage saved_state)) =
     (''My_Chat.json'',
      snd (storage_save_chat_history clock2 [] ''My_Chat'' (the (chat_storage saved_state))))"
    by code_simp
  have b: "map_of (the (chat_storage saved_state)) ''main_session.json'' \<noteq> None"
    by code_simp
  from save_writes_one_blob [OF a] b show ?thesis by simp
qed

text \<open>
  C8, as stated, fails when the store is not available and the transcript has a user
  message: the save of the previous session raises, \<open>create_new_session\<close> raises with it,
  and the active session id is not changed.
\<close>

theorem create_new_session_offline_raises:
  "has_user_messages offline_state \<and>
   create_new_session clock1 clock2 (Some ''My Chat'') offline_state =
     Inl (ValueError ''Chat storage not initialized'') \<and>
   current_session_id offline_state = ''main_session''"
  by code_simp

text \<open>
  C8, amended. When the store is available, or the transcript has no non-system message,
  \<open>create_new_session(name)\<close> returns and sets the active session id to the name with
  every space and slash replaced by an underscore, over a fresh transcript. When the
  transcript had a non-system message, it was saved under the previous session id first,
  and the blob of the new session is uploaded to the container that this save produced.
\<close>

theorem create_new_session_persists_first:
  assumes "name \<noteq> []" and "chat_storage s \<noteq> None \<or> \<not> has_user_messages s"
  shows "\<exists>s'. create_new_session t1 t2 (Some name) s
               = Inr (map (\<lambda>c. if c = CHR '' '' \<or> c = CHR ''/'' then CHR ''_'' else c) name, s') \<and>
           current_session_id s' = map (\<lambda>c. if c = CHR '' '' \<or> c = CHR ''/'' then CHR ''_'' else c) name \<and>
           conversation s' = Some [\<lparr>role = SYSTEM, content = policy_create\<rparr>] \<and>
           (has_user_messages s \<longrightarrow>
              (\<exists>b s1 c1. save_chat_history t1 s = Inr (b, s1) \<and> chat_storage s1 = Some c1 \<and>
                 b = (if current_session_id s = [] then ''chat_session_'' @ stamp t1
                      else current_session_id s) @ ''.json'' \<and>
                 map_option (doc_chat_history \<circ> document) (map_of c1 b)
                   = Some (to_chat_data role_str (the (conversation s))) \<and>
                 chat_storage s' =
                   Some (snd (storage_save_chat_history t2
                           (to_chat_data role_str [\<lparr>role = SYSTEM, content = policy_create\<rparr>])
                           (current_session_id s') c1))))"
proof -
  let ?f = "\<lambda>c. if c = CHR '' '' \<or> c = CHR ''/'' then CHR ''_'' else c"
  have id: "replace ''/'' ''_'' (replace '' '' ''_'' name) = map ?f name"
    by (simp add: replace_char)
  show ?thesis
  proof (cases "has_user_messages s")
    case False
    then show ?thesis using assms(1) id
      by (cases "chat_storage s")
         (auto simp: create_new_session_def save_chat_history_def Let_def add_system_message_def
                     storage_save_chat_history_def split: option.splits prod.splits)
  next
    case True
    then obtain h where h: "conversation s = Some h"
      by (auto simp: has_user_messages_def split: option.splits)
    from True assms(2) obtain c where c: "chat_storage s = Some c" by auto
    show ?thesis using True assms(1) id h c
      by (auto simp: create_new_session_def save_chat_history_def Let_def add_system_message_def
                     storage_save_chat_history_def map_of_upload_blob split: option.splits prod.splits)
  qed
qed

text \<open>C8, witness: \<open>create_new_session("My Chat")\<close> on a transcript with a user message.\<close>

theorem create_new_session_persists_first_witness:
  "fst (projr (create_new_session clock1 clock2 (Some ''My Chat'') chatting_state)) = ''My_Chat'' \<and>
   has_user_messages chatting_state"
proof -
  have a: "''My Chat'' \<noteq> []" by simp
  have b: "chat_storage chatting_state \<noteq> None \<or> \<not> has_user_messages chatting_state" by code_simp
  have c: "has_user_messages chatting_state" by code_simp
  from create_new_session_persists_first [OF a b, of clock1 clock2] c show ?thesis by auto
qed

text \<open>
  C9, as stated, fails twice. With an empty container and a transcript holding a user
  message under \<open>main_session\<close>, \<open>switch_session("main")\<close> first saves
  \<open>main_session.json\<close>, then finds it, since its name contains \<open>main\<close>, and replays it:
  the transcript is not the fresh one. And without a store the call answers \<open>False\<close>.
\<close>

theorem switch_session_not_always_implicit_create:
  "chat_storage chatting_state = Some [] \<and>
   fst (switch_session clock1 ''main'' chatting_state) \<and>
   conversation (snd (switch_session clock1 ''main'' chatting_state))
     \<noteq> Some [\<lparr>role = SYSTEM, content = policy_switch\<rparr>] \<and>
   chat_storage offline_state = None \<and>
   \<not> fst (switch_session clock1 ''nonexistent'' offline_state)"
  by code_simp

text \<open>
  C9, amended. When the store is available and, after the checkpoint that the switch makes
  of a transcript with a non-system message, no listed snapshot has a name containing the
  id, \<open>switch_session(id)\<close> starts a fresh transcript (system message reseeded) under that
  id and answers \<open>True\<close>.
\<close>

theorem switch_session_implicit_create:
  assumes "chat_storage s = Some c"
    and "c' = (if has_user_messages s
               then snd (storage_save_chat_history now (to_chat_data role_str (the (conversation s)))
                           (current_session_id s) c)
               else c)"
    and "\<forall>x \<in> set (list_chat_sessions c'). \<not> str_in session_id (blob_name x)"
  shows "switch_session now session_id s =
           (True, s\<lparr>chat_storage := Some c', current_session_id := session_id,
                    conversation := Some [\<lparr>role = SYSTEM, content = policy_switch\<rparr>]\<rparr>)"
proof -
  have nf: "find (\<lambda>session. str_in session_id (blob_name session)) (list_chat_sessions c') = None"
    using assms(3) by (simp add: find_None_iff)
  show ?thesis
  proof (cases "has_user_messages s")
    case False
    then show ?thesis using assms(1,2) nf
      by (simp add: switch_session_def add_system_message_def)
  next
    case True
    then obtain h where h: "conversation s = Some h"
      by (auto simp: has_user_messages_def split: option.splits)
    obtain b c1 where sv:
      "storage_save_chat_history now (to_chat_data role_str h) (current_session_id s) c = (b, c1)"
      by force
    with True assms(2) h have "c' = c1" by simp
    with True assms(1) nf h sv show ?thesis
      by (simp add: switch_session_def add_system_message_def save_chat_history_def)
  qed
qed

text \<open>C9, witness: \<open>switch_session("nonexistent")\<close> on a transcript with a user message.\<close>

theorem switch_session_implicit_create_witness:
  "switch_session clock1 ''nonexistent'' chatting_state =
     (True, saved_state\<lparr>current_session_id := ''nonexistent'',
                         conversation := Some [\<lparr>role = SYSTEM, content = policy_switch\<rparr>]\<rparr>)"
proof -
  have a: "chat_storage chatting_state = Some []" by code_simp
  have b: "the (chat_storage saved_state) = (if has_user_messages chatting_state
               then snd (storage_save_chat_history clock1 (to_chat_data role_str (the (conversation chatting_state)))
                           (current_session_id chatting_state) [])
               else [])" by code_simp
  have l: "list_chat_sessions (the (chat_storage saved_state)) =
     [\<lparr>blob_name = ''main_session.json'', info_session_id = ''main_session'', info_last_modified = 1\<rparr>]"
    by code_simp
  have n: "\<not> str_in ''nonexistent'' ''main_session.json''" by code_simp
  have c: "\<forall>x \<in> set (list_chat_sessions (the (chat_storage saved_state))). \<not> str_in ''nonexistent'' (blob_name x)"
    unfolding l using n by simp
  have e: "chatting_state\<lparr>chat_storage := Some (the (chat_storage saved_state)), current_session_id := ''nonexistent'',
      conversation := Some [\<lparr>role = SYSTEM, content = policy_switch\<rparr>]\<rparr> =
     saved_state\<lparr>current_session_id := ''nonexistent'',
                         conversation := Some [\<lparr>role = SYSTEM, content = policy_switch\<rparr>]\<rparr>"
    by code_simp
  from switch_session_implicit_create [OF a b c] e show ?thesis by simp
qed

section \<open>Properties of the response normalizer\<close>














text \<open>
  C6. The fenced JSON reply is normalised to the content \<open>hi\<close> and the metadata with
  \<open>userstory\<close> true and the four other flags false.
\<close>

theorem fenced_json_reply_normalized:
  "parse_response R (PStr fenced_reply) =
     [(''content'', PStr ''hi''),
      (''metadata'', PDict [(''userstory'', PBool True), (''testcase'', PBool False),
         (''devtask'', PBool False), (''needs_clarification'', PBool False),
         (''needs_save_confirmation'', PBool False)])]"
  by code_simp





end
